theory Spec2Isabelle
  imports Main
begin

section \<open>Cells, cursors and builders\<close>

text \<open>
  The codec of \<^verbatim>\<open>tlb/loader.go\<close> reads from a \<^verbatim>\<open>*cell.Slice\<close> and writes to a
  \<^verbatim>\<open>*cell.Builder\<close>. Both belong to the external package \<^verbatim>\<open>tvm/cell\<close>, which is
  not part of the repository. They are modelled from the contract the specification
  gives for them: a cell is an ordered bit buffer with a list of child cells, a cursor
  reads sequentially and fails when too few bits or references remain, a builder
  appends.
\<close>

datatype cell = Cell (cbits: "bool list") (crefs: "cell list")

datatype slice = Slice (sbits: "bool list") (srefs: "cell list")

datatype builder = Builder (bbits: "bool list") (brefs: "cell list")

text \<open>
  An argument of \<^verbatim>\<open>fmt.Errorf\<close>: a string (\<^verbatim>\<open>%s\<close>), an unsigned number or a
  signed number (\<^verbatim>\<open>%d\<close>, \<^verbatim>\<open>%x\<close>).
\<close>

datatype fmtarg = AStr string | AUint nat | AInt int

text \<open>
  Errors are values. \<open>Errorf fmt args w\<close> is \<^verbatim>\<open>fmt.Errorf(fmt, args..., w)\<close>, where
  \<open>w\<close> is the error wrapped by \<^verbatim>\<open>%w\<close> when there is one. The other constructors are
  the failures of the external primitives.
\<close>

datatype error =
    ErrNotEnoughData
  | ErrNoMoreRefs
  | ErrNotFit
  | ErrTooMuchRefs
  | ErrRefCannotBeNil
  | ErrSmallSlice
  | ErrExternal string
  | Errorf string "fmtarg list" "error option"

text \<open>
  What a call of the engine does: it returns, it returns an error (the recoverable
  data error), or it panics (the fatal schema definition error and the runtime panics
  of Go: index out of range, a failed type assertion, a failed reflect call).
\<close>

datatype 'a res = Ok 'a | Error error | Panic string

subsection \<open>Bits and numbers\<close>

primrec nat_of_bits_acc :: "nat \<Rightarrow> bool list \<Rightarrow> nat" where
  "nat_of_bits_acc a [] = a"
| "nat_of_bits_acc a (b # bs) = nat_of_bits_acc (2 * a + (if b then 1 else 0)) bs"

definition nat_of_bits :: "bool list \<Rightarrow> nat" where
  "nat_of_bits bs = nat_of_bits_acc 0 bs"

text \<open>The \<open>n\<close> low bits of \<open>v\<close>, most significant first.\<close>

primrec bits_of_nat :: "nat \<Rightarrow> nat \<Rightarrow> bool list" where
  "bits_of_nat 0 v = []"
| "bits_of_nat (Suc n) v = bits_of_nat n (v div 2) @ [odd v]"

text \<open>Two's complement reading of a bit string.\<close>

definition int_of_bits :: "bool list \<Rightarrow> int" where
  "int_of_bits bs =
     (if bs \<noteq> [] \<and> 2 ^ (length bs - 1) \<le> nat_of_bits bs
      then int (nat_of_bits bs) - 2 ^ length bs
      else int (nat_of_bits bs))"

definition bits_of_int :: "nat \<Rightarrow> int \<Rightarrow> bool list" where
  "bits_of_int n v = bits_of_nat n (nat (v mod 2 ^ n))"

text \<open>
  A bit string as bytes, the last byte padded with zero bits
  (\<^verbatim>\<open>LoadSlice\<close> returns \<^verbatim>\<open>[]byte\<close>).
\<close>

fun bytes_of_bits :: "bool list \<Rightarrow> nat list" where
  "bytes_of_bits [] = []"
| "bytes_of_bits (b # bs) =
     nat_of_bits (take 8 (b # bs) @ replicate (8 - length (b # bs)) False)
       # bytes_of_bits (drop 8 (b # bs))"

definition bits_of_bytes :: "nat list \<Rightarrow> bool list" where
  "bits_of_bytes bs = concat (map (bits_of_nat 8) bs)"

subsection \<open>The cursor primitives\<close>

text \<open>
  Modelled from the spec: the read operations of the external bit cursor
  (\<^verbatim>\<open>cell.Slice\<close>). Each advances the position and fails if insufficient bits or
  references remain.
\<close>

definition BeginParse :: "cell \<Rightarrow> slice" where
  "BeginParse c = Slice (cbits c) (crefs c)"

definition load_bits :: "nat \<Rightarrow> slice \<Rightarrow> error + (bool list \<times> slice)" where
  "load_bits n s =
     (if length (sbits s) < n then Inl ErrNotEnoughData
      else Inr (take n (sbits s), Slice (drop n (sbits s)) (srefs s)))"

definition LoadBoolBit :: "slice \<Rightarrow> error + (bool \<times> slice)" where
  "LoadBoolBit s =
     (case sbits s of
        [] \<Rightarrow> Inl ErrNotEnoughData
      | b # bs \<Rightarrow> Inr (b, Slice bs (srefs s)))"

definition LoadUInt :: "nat \<Rightarrow> slice \<Rightarrow> error + (nat \<times> slice)" where
  "LoadUInt n s =
     (case load_bits n s of Inl e \<Rightarrow> Inl e | Inr (bs, s') \<Rightarrow> Inr (nat_of_bits bs, s'))"

definition LoadInt :: "nat \<Rightarrow> slice \<Rightarrow> error + (int \<times> slice)" where
  "LoadInt n s =
     (case load_bits n s of Inl e \<Rightarrow> Inl e | Inr (bs, s') \<Rightarrow> Inr (int_of_bits bs, s'))"

definition LoadBigInt :: "nat \<Rightarrow> slice \<Rightarrow> error + (int \<times> slice)" where
  "LoadBigInt n s =
     (case load_bits n s of Inl e \<Rightarrow> Inl e | Inr (bs, s') \<Rightarrow> Inr (int_of_bits bs, s'))"

definition LoadSlice :: "nat \<Rightarrow> slice \<Rightarrow> error + (nat list \<times> slice)" where
  "LoadSlice n s =
     (case load_bits n s of Inl e \<Rightarrow> Inl e | Inr (bs, s') \<Rightarrow> Inr (bytes_of_bits bs, s'))"

definition LoadRef :: "slice \<Rightarrow> error + (slice \<times> slice)" where
  "LoadRef s =
     (case srefs s of
        [] \<Rightarrow> Inl ErrNoMoreRefs
      | c # cs \<Rightarrow> Inr (BeginParse c, Slice (sbits s) cs))"

text \<open>\<^verbatim>\<open>Slice.ToCell\<close>: what is left of the cursor, as a cell; the cursor stays.\<close>

definition Slice_ToCell :: "slice \<Rightarrow> error + cell" where
  "Slice_ToCell s = Inr (Cell (sbits s) (srefs s))"

subsection \<open>The builder primitives\<close>

text \<open>
  Modelled from the spec: the write operations of the external bit builder
  (\<^verbatim>\<open>cell.Builder\<close>), the mirror of the cursor's. A cell holds at most \<open>1023\<close> bits
  and at most four references; a write that does not fit fails.
\<close>

definition BeginCell :: builder where
  "BeginCell = Builder [] []"

definition EndCell :: "builder \<Rightarrow> cell" where
  "EndCell b = Cell (bbits b) (brefs b)"

definition store_bits :: "bool list \<Rightarrow> builder \<Rightarrow> error + builder" where
  "store_bits bs b =
     (if 1023 < length (bbits b) + length bs then Inl ErrNotFit
      else Inr (Builder (bbits b @ bs) (brefs b)))"

definition StoreBoolBit :: "bool \<Rightarrow> builder \<Rightarrow> error + builder" where
  "StoreBoolBit v b = store_bits [v] b"

definition StoreUInt :: "nat \<Rightarrow> nat \<Rightarrow> builder \<Rightarrow> error + builder" where
  "StoreUInt v n b = store_bits (bits_of_nat n v) b"

definition StoreInt :: "int \<Rightarrow> nat \<Rightarrow> builder \<Rightarrow> error + builder" where
  "StoreInt v n b = store_bits (bits_of_int n v) b"

definition StoreBigInt :: "int \<Rightarrow> nat \<Rightarrow> builder \<Rightarrow> error + builder" where
  "StoreBigInt v n b = store_bits (bits_of_int n v) b"

definition StoreSlice :: "nat list \<Rightarrow> nat \<Rightarrow> builder \<Rightarrow> error + builder" where
  "StoreSlice bs n b =
     (if length bs * 8 < n then Inl ErrSmallSlice
      else store_bits (take n (bits_of_bytes bs)) b)"

definition StoreRef :: "cell option \<Rightarrow> builder \<Rightarrow> error + builder" where
  "StoreRef c b =
     (if 4 \<le> length (brefs b) then Inl ErrTooMuchRefs
      else case c of
             None \<Rightarrow> Inl ErrRefCannotBeNil
           | Some r \<Rightarrow> Inr (Builder (bbits b) (brefs b @ [r])))"

text \<open>\<^verbatim>\<open>StoreBuilder(c.ToBuilder())\<close>: the bits and the references of \<open>c\<close>, appended.\<close>

definition StoreBuilder :: "cell \<Rightarrow> builder \<Rightarrow> error + builder" where
  "StoreBuilder c b =
     (if 4 < length (brefs b) + length (crefs c) then Inl ErrTooMuchRefs
      else if 1023 < length (bbits b) + length (cbits c) then Inl ErrNotFit
      else Inr (Builder (bbits b @ cbits c) (brefs b @ crefs c)))"

subsection \<open>Addresses and dictionaries\<close>

text \<open>
  The wire formats of an address and of a dictionary (its trie) are the external
  package's and out of the specification's scope. The engines take their four
  operations as a parameter. A dictionary is what the engine sees of it: its key width
  and the key-value pairs \<^verbatim>\<open>All()\<close> enumerates, in that order.
\<close>

datatype address = Address (workchain: int) (account: nat)

datatype dictionary = Dictionary (keySz: nat) (All: "(cell \<times> cell) list")

record extern =
  LoadAddr :: "slice \<Rightarrow> error + (address option \<times> slice)"
  StoreAddr :: "address option \<Rightarrow> builder \<Rightarrow> error + builder"
  LoadDict :: "nat \<Rightarrow> slice \<Rightarrow> error + (dictionary \<times> slice)"
  StoreDict :: "dictionary option \<Rightarrow> builder \<Rightarrow> error + builder"

section \<open>The standard library functions the engines call\<close>

text \<open>\<^verbatim>\<open>strings.TrimSpace\<close>, on ASCII text.\<close>

definition isSpace :: "char \<Rightarrow> bool" where
  "isSpace c = (c \<in> set [CHR 0x09, CHR 0x0A, CHR 0x0B, CHR 0x0C, CHR 0x0D, CHR '' ''])"

definition TrimSpace :: "string \<Rightarrow> string" where
  "TrimSpace s = rev (dropWhile isSpace (rev (dropWhile isSpace s)))"

text \<open>\<^verbatim>\<open>strings.Split(s, " ")\<close>: never empty; two spaces in a row give an empty token.\<close>

fun Split :: "string \<Rightarrow> string list" where
  "Split [] = [[]]"
| "Split (c # cs) =
     (if c = CHR '' '' then [] # Split cs
      else (case Split cs of [] \<Rightarrow> [[c]] | w # ws \<Rightarrow> (c # w) # ws))"

definition HasPrefix1 :: "string \<Rightarrow> char \<Rightarrow> bool" where
  "HasPrefix1 s c = (case s of [] \<Rightarrow> False | x # _ \<Rightarrow> x = c)"

text \<open>A digit of \<^verbatim>\<open>strconv.ParseUint\<close>: \<^verbatim>\<open>0-9\<close>, \<^verbatim>\<open>a-z\<close>, \<^verbatim>\<open>A-Z\<close>.\<close>

definition digit_val :: "char \<Rightarrow> nat option" where
  "digit_val c =
     (let n = (of_char c :: nat) in
      if 48 \<le> n \<and> n \<le> 57 then Some (n - 48)
      else if 97 \<le> n \<and> n \<le> 122 then Some (n - 87)
      else if 65 \<le> n \<and> n \<le> 90 then Some (n - 55)
      else None)"

primrec parse_digits :: "nat \<Rightarrow> nat \<Rightarrow> string \<Rightarrow> nat option" where
  "parse_digits base a [] = Some a"
| "parse_digits base a (c # cs) =
     (case digit_val c of
        None \<Rightarrow> None
      | Some d \<Rightarrow> if base \<le> d then None else parse_digits base (a * base + d) cs)"

text \<open>
  \<^verbatim>\<open>strconv.ParseUint(s, base, 64)\<close> for a base of 2, 10 or 16: \<open>None\<close> is the
  returned error (empty text, a sign, a character that is no digit of the base, or a
  number of \<open>2 ^ 64\<close> or more).
\<close>

definition ParseUint :: "string \<Rightarrow> nat \<Rightarrow> nat option" where
  "ParseUint s base =
     (if s = [] then None
      else case parse_digits base 0 s of
             None \<Rightarrow> None
           | Some v \<Rightarrow> if v < 2 ^ 64 then Some v else None)"

text \<open>
  \<^verbatim>\<open>strconv.ParseInt(s, base, 64)\<close>: an optional sign, then \<^verbatim>\<open>ParseUint\<close>, then the
  range of a signed 64-bit integer.
\<close>

definition ParseInt :: "string \<Rightarrow> nat \<Rightarrow> int option" where
  "ParseInt s base =
     (if s = [] then None
      else let neg = (hd s = CHR ''-'');
               r = (if hd s = CHR ''+'' \<or> hd s = CHR ''-'' then tl s else s)
           in case ParseUint r base of
                None \<Rightarrow> None
              | Some un \<Rightarrow>
                  if \<not> neg \<and> 2 ^ 63 \<le> un then None
                  else if neg \<and> 2 ^ 63 < un then None
                  else Some (if neg then - int un else int un))"

text \<open>\<^verbatim>\<open>strconv.Atoi\<close>, where \<^verbatim>\<open>int\<close> has 64 bits.\<close>

definition Atoi :: "string \<Rightarrow> int option" where
  "Atoi s = ParseInt s 10"

text \<open>The conversions \<^verbatim>\<open>uint(x)\<close> and \<^verbatim>\<open>uint64(x)\<close> of a signed 64-bit integer.\<close>

definition uint64 :: "int \<Rightarrow> nat" where
  "uint64 x = nat (x mod 2 ^ 64)"

section \<open>Schemas and records\<close>

text \<open>
  The engines inspect a record through \<^verbatim>\<open>reflect\<close>. A schema is the struct type:
  its name and its fields in declaration order, each with its identifier, its declared
  Go type and the text of its \<^verbatim>\<open>tlb\<close> tag. The declared types are the kinds the
  engines tell apart: the signed kinds (\<^verbatim>\<open>int8\<close> ... \<^verbatim>\<open>int64\<close>, \<^verbatim>\<open>int\<close>) and the
  unsigned kinds with their width, \<^verbatim>\<open>*big.Int\<close>, \<^verbatim>\<open>bool\<close>, \<^verbatim>\<open>[]byte\<close>,
  \<^verbatim>\<open>*address.Address\<close>, \<^verbatim>\<open>*cell.Cell\<close>, \<^verbatim>\<open>*cell.Dictionary\<close>, \<^verbatim>\<open>Magic\<close>, a
  struct, a pointer and a slice. Types with a manual loader or store of their own
  (\<^verbatim>\<open>manualLoader\<close>, \<^verbatim>\<open>manualStore\<close>) are not among them.
\<close>

datatype gotype =
    TInt nat
  | TUint nat
  | TBigInt
  | TBool
  | TBytes
  | TAddr
  | TCell
  | TDict
  | TMagic
  | TStruct string "field list"
  | TPtr gotype
  | TSlice gotype
and field = Field (fname: string) (ftype: gotype) (ftag: string)

text \<open>A value of a declared type; a pointer is \<open>None\<close> when it is nil.\<close>

datatype val =
    VInt int
  | VUint nat
  | VBigInt "int option"
  | VBool bool
  | VBytes "nat list"
  | VAddr "address option"
  | VCell "cell option"
  | VDict "dictionary option"
  | VMagic
  | VStruct "val list"
  | VPtr "val option"
  | VSlice "val list"

text \<open>The zero value of a type: what \<^verbatim>\<open>reflect.New\<close> points to.\<close>

fun zero :: "gotype \<Rightarrow> val"
  and zero_fields :: "field list \<Rightarrow> val list" where
  "zero (TInt w) = VInt 0"
| "zero (TUint w) = VUint 0"
| "zero TBigInt = VBigInt None"
| "zero TBool = VBool False"
| "zero TBytes = VBytes []"
| "zero TAddr = VAddr None"
| "zero TCell = VCell None"
| "zero TDict = VDict None"
| "zero TMagic = VMagic"
| "zero (TStruct nm fs) = VStruct (zero_fields fs)"
| "zero (TPtr t) = VPtr None"
| "zero (TSlice t) = VSlice []"
| "zero_fields [] = []"
| "zero_fields (Field n t g # fs) = zero t # zero_fields fs"

text \<open>\<^verbatim>\<open>field.Type.Kind() == reflect.Pointer\<close>\<close>

fun is_pointer :: "gotype \<Rightarrow> bool" where
  "is_pointer TBigInt = True"
| "is_pointer TAddr = True"
| "is_pointer TCell = True"
| "is_pointer TDict = True"
| "is_pointer (TPtr t) = True"
| "is_pointer _ = False"

text \<open>\<^verbatim>\<open>fieldVal.IsNil()\<close>\<close>

fun IsNil :: "val \<Rightarrow> bool" where
  "IsNil (VBigInt None) = True"
| "IsNil (VAddr None) = True"
| "IsNil (VCell None) = True"
| "IsNil (VDict None) = True"
| "IsNil (VPtr None) = True"
| "IsNil _ = False"

text \<open>The signed kinds: \<^verbatim>\<open>reflect.Int64, reflect.Int32, reflect.Int16, reflect.Int8, reflect.Int\<close>.\<close>

fun is_int_kind :: "gotype \<Rightarrow> bool" where
  "is_int_kind (TInt w) = True"
| "is_int_kind _ = False"

text \<open>The name of a type, \<^verbatim>\<open>reflect.Type.Name()\<close>: empty for a pointer type.\<close>

fun type_name :: "gotype \<Rightarrow> string" where
  "type_name (TStruct nm fs) = nm"
| "type_name _ = []"

text \<open>
  \<^verbatim>\<open>reflect.Value.Convert\<close> between the integer kinds wraps around to the width of the
  target; a \<^verbatim>\<open>*big.Int\<close> converts to \<^verbatim>\<open>*big.Int\<close> only. \<open>None\<close> is the panic of a
  conversion that does not exist.
\<close>

definition wrap_int :: "nat \<Rightarrow> int \<Rightarrow> int" where
  "wrap_int w x = (x + 2 ^ (w - 1)) mod 2 ^ w - 2 ^ (w - 1)"

fun Convert :: "val \<Rightarrow> gotype \<Rightarrow> val option" where
  "Convert (VInt x) (TInt w) = Some (VInt (wrap_int w x))"
| "Convert (VInt x) (TUint w) = Some (VUint (nat (x mod 2 ^ w)))"
| "Convert (VUint x) (TInt w) = Some (VInt (wrap_int w (int x)))"
| "Convert (VUint x) (TUint w) = Some (VUint (x mod 2 ^ w))"
| "Convert (VBigInt x) TBigInt = Some (VBigInt x)"
| "Convert _ _ = None"

text \<open>The texts of the panics.\<close>

definition index_panic :: string where
  "index_panic = ''runtime error: index out of range''"

definition reflect_panic :: string where
  "reflect_panic = ''reflect: call on a value of another kind or type''"

definition nil_panic :: string where
  "nil_panic = ''runtime error: invalid memory address or nil pointer dereference''"

definition quoted :: "string \<Rightarrow> string" where
  "quoted s = [CHR 0x27] @ s @ [CHR 0x27]"

definition cannot_deserialize :: "string \<Rightarrow> string \<Rightarrow> string" where
  "cannot_deserialize name tag =
     ''cannot deserialize field '' @ quoted name @ '' as tag '' @ quoted tag"

definition bad_dict_size :: "string \<Rightarrow> string \<Rightarrow> string" where
  "bad_dict_size name a =
     ''cannot deserialize field '' @ quoted name @ '' as dict, bad size '' @ quoted a"

definition cannot_serialize :: "string \<Rightarrow> string \<Rightarrow> string" where
  "cannot_serialize name tag =
     ''cannot serialize field '' @ quoted name @ '' as tag '' @ quoted tag
       @ '', use manual serialization''"

section \<open>The decode engine\<close>

text \<open>
  The \<^verbatim>\<open>maybe\<close> prefix (lines 58 to 68): one bit is read; when it is clear the field
  is left alone (\<open>None\<close>), when it is set the rest of the directive stays.
\<close>

definition load_maybe :: "string \<Rightarrow> string list \<Rightarrow> slice \<Rightarrow> (string list option \<times> slice) res" where
  "load_maybe name settings s =
     (case settings of
        [] \<Rightarrow> Panic index_panic
      | t # ts \<Rightarrow>
          if t = ''maybe'' then
            (case LoadBoolBit s of
               Inl e \<Rightarrow> Error (Errorf ''failed to load maybe for %s, err: %w'' [AStr name] (Some e))
             | Inr (has, s') \<Rightarrow> if \<not> has then Ok (None, s') else Ok (Some ts, s'))
          else Ok (Some settings, s))"

text \<open>The \<^verbatim>\<open>either\<close> prefix (lines 70 to 84).\<close>

definition load_either :: "string \<Rightarrow> string list \<Rightarrow> slice \<Rightarrow> (string list \<times> slice) res" where
  "load_either name settings s =
     (case settings of
        [] \<Rightarrow> Panic index_panic
      | t # ts \<Rightarrow>
          if t = ''either'' then
            (if length settings < 3 then Panic ''either tag should have 2 args''
             else case LoadBoolBit s of
                    Inl e \<Rightarrow> Error (Errorf ''failed to load maybe for %s, err: %w'' [AStr name] (Some e))
                  | Inr (isSecond, s') \<Rightarrow>
                      if \<not> isSecond then Ok ([settings ! 1], s') else Ok ([settings ! 2], s'))
          else Ok (settings, s))"

text \<open>The \<^verbatim>\<open>##\<close> directive (lines 87 to 127), after the number of bits is parsed.\<close>

definition load_int :: "string \<Rightarrow> gotype \<Rightarrow> string \<Rightarrow> nat \<Rightarrow> nat \<Rightarrow> val list \<Rightarrow> slice \<Rightarrow> (val list \<times> slice) res" where
  "load_int name ty tag num i rv s =
     (if num \<le> 64 then
        (case (if is_int_kind ty then
                 (case LoadInt num s of
                    Inl e \<Rightarrow> Error (Errorf ''failed to load int %d, err: %w'' [AUint num] (Some e))
                  | Inr (x, s') \<Rightarrow> Ok (VInt x, s'))
               else if ty = TBigInt then
                 (case LoadBigInt num s of
                    Inl e \<Rightarrow> Error (Errorf ''failed to load bigint %d, err: %w'' [AUint num] (Some e))
                  | Inr (x, s') \<Rightarrow> Ok (VBigInt (Some x), s'))
               else
                 (case LoadUInt num s of
                    Inl e \<Rightarrow> Error (Errorf ''failed to load uint %d, err: %w'' [AUint num] (Some e))
                  | Inr (x, s') \<Rightarrow> Ok (VUint x, s'))) of
           Error e \<Rightarrow> Error e
         | Panic p \<Rightarrow> Panic p
         | Ok (x, s') \<Rightarrow>
             (case Convert x ty of
                None \<Rightarrow> Panic reflect_panic
              | Some y \<Rightarrow> Ok (rv[i := y], s')))
      else if num \<le> 256 then
        (case LoadBigInt num s of
           Inl e \<Rightarrow> Error (Errorf ''failed to load bigint %d, err: %w'' [AUint num] (Some e))
         | Inr (x, s') \<Rightarrow>
             if ty = TBigInt then Ok (rv[i := VBigInt (Some x)], s') else Panic reflect_panic)
      else Panic (cannot_deserialize name tag))"

definition load_int_tag :: "string \<Rightarrow> gotype \<Rightarrow> string \<Rightarrow> string list \<Rightarrow> nat \<Rightarrow> val list \<Rightarrow> slice \<Rightarrow> (val list \<times> slice) res" where
  "load_int_tag name ty tag ts i rv s =
     (case ts of
        [] \<Rightarrow> Panic index_panic
      | a # _ \<Rightarrow>
          (case ParseUint a 10 of
             None \<Rightarrow> Panic ''corrupted num bits in ## tag''
           | Some num \<Rightarrow> load_int name ty tag num i rv s))"

text \<open>\<^verbatim>\<open>addr\<close> (lines 128 to 135), \<^verbatim>\<open>bool\<close> (136 to 143) and \<^verbatim>\<open>bits\<close> (144 to 157).\<close>

definition load_addr :: "extern \<Rightarrow> gotype \<Rightarrow> nat \<Rightarrow> val list \<Rightarrow> slice \<Rightarrow> (val list \<times> slice) res" where
  "load_addr X ty i rv s =
     (case LoadAddr X s of
        Inl e \<Rightarrow> Error (Errorf ''failed to load address, err: %w'' [] (Some e))
      | Inr (x, s') \<Rightarrow> if ty = TAddr then Ok (rv[i := VAddr x], s') else Panic reflect_panic)"

definition load_bool :: "gotype \<Rightarrow> nat \<Rightarrow> val list \<Rightarrow> slice \<Rightarrow> (val list \<times> slice) res" where
  "load_bool ty i rv s =
     (case LoadBoolBit s of
        Inl e \<Rightarrow> Error (Errorf ''failed to load bool, err: %w'' [] (Some e))
      | Inr (x, s') \<Rightarrow> if ty = TBool then Ok (rv[i := VBool x], s') else Panic reflect_panic)"

definition load_bits_tag :: "gotype \<Rightarrow> string list \<Rightarrow> nat \<Rightarrow> val list \<Rightarrow> slice \<Rightarrow> (val list \<times> slice) res" where
  "load_bits_tag ty ts i rv s =
     (case ts of
        [] \<Rightarrow> Panic index_panic
      | a # _ \<Rightarrow>
          (case Atoi a of
             None \<Rightarrow> Panic ''corrupted num bits in bits tag''
           | Some num \<Rightarrow>
               (case LoadSlice (uint64 num) s of
                  Inl e \<Rightarrow> Error (Errorf ''failed to load uint %d, err: %w'' [AInt num] (Some e))
                | Inr (x, s') \<Rightarrow>
                    if ty = TBytes then Ok (rv[i := VBytes x], s') else Panic reflect_panic)))"

text \<open>
  The literal of a \<^verbatim>\<open>Magic\<close> field (lines 188 to 206, and 420 to 438 of the encode
  engine): its pattern and its width.
\<close>

definition magic_of_tag :: "string \<Rightarrow> (int \<times> nat) res" where
  "magic_of_tag t =
     (if HasPrefix1 t CHR ''#'' \<or> HasPrefix1 t CHR ''$'' then
        (let base = (if HasPrefix1 t CHR ''#'' then 16 else 2);
             sz = (if HasPrefix1 t CHR ''#'' then (length t - 1) * 4 else length t - 1)
         in if 64 < sz then Panic ''too big magic value type in tag''
            else case ParseInt (tl t) base of
                   None \<Rightarrow> Panic ''corrupted magic value in tag''
                 | Some magic \<Rightarrow> Ok (magic, sz))
      else Panic ''unknown magic value type in tag'')"

definition load_magic :: "string \<Rightarrow> string \<Rightarrow> val list \<Rightarrow> slice \<Rightarrow> (val list \<times> slice) res" where
  "load_magic tyname t rv s =
     (case magic_of_tag t of
        Panic p \<Rightarrow> Panic p
      | Error e \<Rightarrow> Error e
      | Ok (magic, sz) \<Rightarrow>
          (case LoadUInt sz s of
             Inl e \<Rightarrow> Error (Errorf ''failed to load magic: %w'' [] (Some e))
           | Inr (ldMagic, s') \<Rightarrow>
               if ldMagic \<noteq> uint64 magic then
                 Error (Errorf ''magic is not correct for %s, want %x, got %x''
                          [AStr tyname, AInt magic, AUint ldMagic] None)
               else Ok (rv, s')))"

text \<open>
  The cursor a \<^verbatim>\<open>^\<close> or \<^verbatim>\<open>.\<close> field is read from (lines 159 to 167): the next child
  cell, with the cursor the engine goes on with, or the cursor itself.
\<close>

definition load_next :: "string \<Rightarrow> string \<Rightarrow> slice \<Rightarrow> (slice \<times> slice option) res" where
  "load_next name t s =
     (if t = ''^'' then
        (case LoadRef s of
           Inl e \<Rightarrow> Error (Errorf ''failed to load ref for %s, err: %w'' [AStr name] (Some e))
         | Inr (ref, s') \<Rightarrow> Ok (ref, Some s'))
      else Ok (s, None))"

text \<open>
  The engine itself. \<open>loadField\<close> is one turn of the loop of \<^verbatim>\<open>LoadFromCell\<close> (lines
  47 to 269), \<open>LoadFromCell_fields\<close> the loop from field \<open>i\<close> on, \<open>structLoad\<close> the
  function of that name and \<open>dictToArray\<close> the loop of the \<^verbatim>\<open>array\<close> transform (lines
  240 to 256). \<open>rv\<close> holds the fields of the record that is being filled and \<open>tyname\<close>
  the name of its type.
\<close>

function (sequential) loadField :: "extern \<Rightarrow> string \<Rightarrow> field \<Rightarrow> nat \<Rightarrow> val list \<Rightarrow> slice \<Rightarrow> (val list \<times> slice) res"
  and loadDirective :: "extern \<Rightarrow> string \<Rightarrow> string \<Rightarrow> gotype \<Rightarrow> string \<Rightarrow> string list \<Rightarrow> nat \<Rightarrow> val list \<Rightarrow> slice \<Rightarrow> (val list \<times> slice) res"
  and dictToArray :: "extern \<Rightarrow> gotype \<Rightarrow> bool \<Rightarrow> (cell \<times> cell) list \<Rightarrow> val \<Rightarrow> val res"
  and structLoad :: "extern \<Rightarrow> gotype \<Rightarrow> slice \<Rightarrow> (val \<times> slice) res"
  and LoadFromCell_fields :: "extern \<Rightarrow> string \<Rightarrow> field list \<Rightarrow> nat \<Rightarrow> val list \<Rightarrow> slice \<Rightarrow> (val list \<times> slice) res"
  where
  "loadField X tyname (Field name ty tag0) i rv s =
     (let tag = TrimSpace tag0 in
      if tag = ''-'' then Ok (rv, s)
      else case load_maybe name (Split tag) s of
             Error e \<Rightarrow> Error e
           | Panic p \<Rightarrow> Panic p
           | Ok (None, s1) \<Rightarrow> Ok (rv, s1)
           | Ok (Some settings1, s1) \<Rightarrow>
               (case load_either name settings1 s1 of
                  Error e \<Rightarrow> Error e
                | Panic p \<Rightarrow> Panic p
                | Ok (settings, s2) \<Rightarrow> loadDirective X tyname name ty tag settings i rv s2))"
| "loadDirective X tyname name ty tag settings i rv s =
     (case settings of
        [] \<Rightarrow> Panic index_panic
      | t # ts \<Rightarrow>
          if t = ''##'' then load_int_tag name ty tag ts i rv s
          else if t = ''addr'' then load_addr X ty i rv s
          else if t = ''bool'' then load_bool ty i rv s
          else if t = ''bits'' then load_bits_tag ty ts i rv s
          else if t = ''^'' \<or> t = ''.'' then
            (case load_next name t s of
               Error e \<Rightarrow> Error e
             | Panic p \<Rightarrow> Panic p
             | Ok (next, after) \<Rightarrow>
                 if ty = TCell then
                   (case Slice_ToCell next of
                      Inl e \<Rightarrow> Error (Errorf ''failed to convert ref to cell for %s, err: %w'' [AStr name] (Some e))
                    | Inr c \<Rightarrow> Ok (rv[i := VCell (Some c)], (case after of None \<Rightarrow> s | Some s' \<Rightarrow> s')))
                 else
                   (case structLoad X ty next of
                      Error e \<Rightarrow> Error e
                    | Panic p \<Rightarrow> Panic p
                    | Ok (nVal, next') \<Rightarrow>
                        Ok (rv[i := nVal], (case after of None \<Rightarrow> next' | Some s' \<Rightarrow> s'))))
          else if ty = TMagic then load_magic tyname t rv s
          else if t = ''dict'' then
            (case ts of
               [] \<Rightarrow> Panic index_panic
             | a # _ \<Rightarrow>
                 (case ParseUint a 10 of
                    None \<Rightarrow> Panic (bad_dict_size name a)
                  | Some sz \<Rightarrow>
                      (case LoadDict X sz s of
                         Inl e \<Rightarrow> Error (Errorf ''failed to load ref for %s, err: %w'' [AStr name] (Some e))
                       | Inr (dict, s') \<Rightarrow>
                           if 4 \<le> length settings \<and> settings ! 2 = ''->'' then
                             (if settings ! 3 = ''array'' then
                                (case dictToArray X ty (5 \<le> length settings \<and> settings ! 4 = ''^'')
                                        (All dict) (rv ! i) of
                                   Error e \<Rightarrow> Error e
                                 | Panic p \<Rightarrow> Panic p
                                 | Ok arr \<Rightarrow> Ok (rv[i := arr], s'))
                              else Panic ''transformation to this type is not supported'')
                           else if ty = TDict then Ok (rv[i := VDict (Some dict)], s')
                           else Panic reflect_panic)))
          else Panic (cannot_deserialize name tag))"
| "dictToArray X ty isRef [] arr = Ok arr"
| "dictToArray X ty isRef (kv # kvs) arr =
     (case (if isRef then
              (case LoadRef (BeginParse (snd kv)) of
                 Inl e \<Rightarrow> Error (Errorf ''failed to load ref in dict transform: %w'' [] (Some e))
               | Inr (ref, _) \<Rightarrow> Ok ref)
            else Ok (BeginParse (snd kv))) of
        Error e \<Rightarrow> Error e
      | Panic p \<Rightarrow> Panic p
      | Ok ld \<Rightarrow>
          (case ty of
             TSlice ety \<Rightarrow>
               (case structLoad X ety ld of
                  Error e \<Rightarrow> Error (Errorf ''failed to load struct in dict transform: %w'' [] (Some e))
                | Panic p \<Rightarrow> Panic p
                | Ok (nVal, _) \<Rightarrow>
                    (case arr of
                       VSlice xs \<Rightarrow> dictToArray X ty isRef kvs (VSlice (xs @ [nVal]))
                     | _ \<Rightarrow> Panic reflect_panic))
           | TPtr ety \<Rightarrow>
               (case structLoad X ety ld of
                  Error e \<Rightarrow> Error (Errorf ''failed to load struct in dict transform: %w'' [] (Some e))
                | Panic p \<Rightarrow> Panic p
                | Ok (nVal, _) \<Rightarrow> Panic reflect_panic)
           | _ \<Rightarrow> Panic reflect_panic))"
| "structLoad X ty s =
     (case ty of
        TStruct nm fs \<Rightarrow>
          (case LoadFromCell_fields X nm fs 0 (zero_fields fs) s of
             Error e \<Rightarrow> Error (Errorf ''failed to load from cell for %s, err: %w'' [AStr nm] (Some e))
           | Panic p \<Rightarrow> Panic p
           | Ok (rv, s') \<Rightarrow> Ok (VStruct rv, s'))
      | TPtr (TStruct nm fs) \<Rightarrow>
          (case LoadFromCell_fields X nm fs 0 (zero_fields fs) s of
             Error e \<Rightarrow> Error (Errorf ''failed to load from cell for %s, err: %w'' [AStr []] (Some e))
           | Panic p \<Rightarrow> Panic p
           | Ok (rv, s') \<Rightarrow> Ok (VPtr (Some (VStruct rv)), s'))
      | _ \<Rightarrow> Panic reflect_panic)"
| "LoadFromCell_fields X tyname [] i rv s = Ok (rv, s)"
| "LoadFromCell_fields X tyname (f # fs) i rv s =
     (case loadField X tyname f i rv s of
        Error e \<Rightarrow> Error e
      | Panic p \<Rightarrow> Panic p
      | Ok (rv', s') \<Rightarrow> LoadFromCell_fields X tyname fs (Suc i) rv' s')"

  by pat_completeness auto

termination
proof (relation "inv_image (less_than <*lex*> less_than <*lex*> less_than)
    (\<lambda>x. case x of
        Inl (Inl (X, tn, f, i, rv, s)) \<Rightarrow> (size f, 0::nat, 0::nat)
      | Inl (Inr (X, tn, name, ty, tag, st, i, rv, s)) \<Rightarrow> (size ty, 2, 0)
      | Inr (Inl (X, ty, isRef, kvs, arr)) \<Rightarrow> (size ty, 1, length kvs)
      | Inr (Inr (Inl (X, ty, s))) \<Rightarrow> (size ty, 0, 0)
      | Inr (Inr (Inr (X, tn, fs, i, rv, s))) \<Rightarrow> (size_list size fs, 0, 0))")
  show "wf (inv_image (less_than <*lex*> less_than <*lex*> less_than)
    (\<lambda>x. case x of
        Inl (Inl (X, tn, f, i, rv, s)) \<Rightarrow> (size f, 0::nat, 0::nat)
      | Inl (Inr (X, tn, name, ty, tag, st, i, rv, s)) \<Rightarrow> (size ty, 2, 0)
      | Inr (Inl (X, ty, isRef, kvs, arr)) \<Rightarrow> (size ty, 1, length kvs)
      | Inr (Inr (Inl (X, ty, s))) \<Rightarrow> (size ty, 0, 0)
      | Inr (Inr (Inr (X, tn, fs, i, rv, s))) \<Rightarrow> (size_list size fs, 0, 0)))"
    by (intro wf_inv_image wf_lex_prod wf_less_than)
qed simp_all


section \<open>The encode engine\<close>

text \<open>The \<^verbatim>\<open>maybe\<close> prefix (lines 299 to 311) and the \<^verbatim>\<open>either\<close> prefix (313 to 329).\<close>

definition store_maybe :: "gotype \<Rightarrow> val \<Rightarrow> string list \<Rightarrow> builder \<Rightarrow> (string list option \<times> builder) res" where
  "store_maybe ty fieldVal settings b =
     (case settings of
        [] \<Rightarrow> Panic index_panic
      | t # ts \<Rightarrow>
          if t = ''maybe'' then
            (if is_pointer ty \<and> IsNil fieldVal then
               (case StoreBoolBit False b of
                  Inl e \<Rightarrow> Error (Errorf ''cannot store maybe bit: %w'' [] (Some e))
                | Inr b' \<Rightarrow> Ok (None, b'))
             else
               (case StoreBoolBit True b of
                  Inl e \<Rightarrow> Error (Errorf ''cannot store maybe bit: %w'' [] (Some e))
                | Inr b' \<Rightarrow> Ok (Some ts, b')))
          else Ok (Some settings, b))"

definition store_either :: "string list \<Rightarrow> builder \<Rightarrow> (string list \<times> builder) res" where
  "store_either settings b =
     (case settings of
        [] \<Rightarrow> Panic index_panic
      | t # ts \<Rightarrow>
          if t = ''either'' then
            (if length settings < 3 then Panic ''either tag should have 2 args''
             else let second = HasPrefix1 (settings ! 2) CHR ''^'' in
                  case StoreBoolBit second b of
                    Inl e \<Rightarrow> Error (Errorf ''cannot store maybe bit: %w'' [] (Some e))
                  | Inr b' \<Rightarrow>
                      if second then Ok ([settings ! 2], b') else Ok ([settings ! 1], b'))
          else Ok (settings, b))"

text \<open>
  The \<^verbatim>\<open>##\<close> directive (lines 331 to 367). \<^verbatim>\<open>fieldVal.Int()\<close> and
  \<^verbatim>\<open>fieldVal.Uint()\<close> panic on a value of another kind, the assertion
  \<^verbatim>\<open>.(*big.Int)\<close> on a value of another type, and \<^verbatim>\<open>StoreBigInt\<close> on a nil pointer.
\<close>

definition store_bigint :: "val \<Rightarrow> nat \<Rightarrow> builder \<Rightarrow> builder res" where
  "store_bigint fieldVal num b =
     (case fieldVal of
        VBigInt None \<Rightarrow> Panic nil_panic
      | VBigInt (Some v) \<Rightarrow>
          (case StoreBigInt v num b of
             Inl e \<Rightarrow> Error (Errorf ''failed to store bigint %d, err: %w'' [AUint num] (Some e))
           | Inr b' \<Rightarrow> Ok b')
      | _ \<Rightarrow> Panic reflect_panic)"

definition store_int :: "string \<Rightarrow> gotype \<Rightarrow> string \<Rightarrow> nat \<Rightarrow> val \<Rightarrow> builder \<Rightarrow> builder res" where
  "store_int name ty tag num fieldVal b =
     (if num \<le> 64 then
        (if is_int_kind ty then
           (case fieldVal of
              VInt v \<Rightarrow>
                (case StoreInt v num b of
                   Inl e \<Rightarrow> Error (Errorf ''failed to store int %d, err: %w'' [AUint num] (Some e))
                 | Inr b' \<Rightarrow> Ok b')
            | _ \<Rightarrow> Panic reflect_panic)
         else if ty = TBigInt then store_bigint fieldVal num b
         else
           (case fieldVal of
              VUint v \<Rightarrow>
                (case StoreUInt v num b of
                   Inl e \<Rightarrow> Error (Errorf ''failed to store uint %d, err: %w'' [AUint num] (Some e))
                 | Inr b' \<Rightarrow> Ok b')
            | _ \<Rightarrow> Panic reflect_panic))
      else if num \<le> 256 then store_bigint fieldVal num b
      else Panic (cannot_serialize name tag))"

definition store_int_tag :: "string \<Rightarrow> gotype \<Rightarrow> string \<Rightarrow> string list \<Rightarrow> val \<Rightarrow> builder \<Rightarrow> builder res" where
  "store_int_tag name ty tag ts fieldVal b =
     (case ts of
        [] \<Rightarrow> Panic index_panic
      | a # _ \<Rightarrow>
          (case ParseUint a 10 of
             None \<Rightarrow> Panic ''corrupted num bits in ## tag''
           | Some num \<Rightarrow> store_int name ty tag num fieldVal b))"

text \<open>\<^verbatim>\<open>addr\<close> (lines 368 to 373), \<^verbatim>\<open>bool\<close> (374 to 379) and \<^verbatim>\<open>bits\<close> (380 to 391).\<close>

definition store_addr :: "extern \<Rightarrow> val \<Rightarrow> builder \<Rightarrow> builder res" where
  "store_addr X fieldVal b =
     (case fieldVal of
        VAddr a \<Rightarrow>
          (case StoreAddr X a b of
             Inl e \<Rightarrow> Error (Errorf ''failed to store address, err: %w'' [] (Some e))
           | Inr b' \<Rightarrow> Ok b')
      | _ \<Rightarrow> Panic reflect_panic)"

definition store_bool :: "val \<Rightarrow> builder \<Rightarrow> builder res" where
  "store_bool fieldVal b =
     (case fieldVal of
        VBool v \<Rightarrow>
          (case StoreBoolBit v b of
             Inl e \<Rightarrow> Error (Errorf ''failed to store bool, err: %w'' [] (Some e))
           | Inr b' \<Rightarrow> Ok b')
      | _ \<Rightarrow> Panic reflect_panic)"

definition store_bits_tag :: "string list \<Rightarrow> val \<Rightarrow> builder \<Rightarrow> builder res" where
  "store_bits_tag ts fieldVal b =
     (case ts of
        [] \<Rightarrow> Panic index_panic
      | a # _ \<Rightarrow>
          (case Atoi a of
             None \<Rightarrow> Panic ''corrupted num bits in bits tag''
           | Some num \<Rightarrow>
               (case fieldVal of
                  VBytes bs \<Rightarrow>
                    (case StoreSlice bs (uint64 num) b of
                       Inl e \<Rightarrow> Error (Errorf ''failed to store bits %d, err: %w'' [AInt num] (Some e))
                     | Inr b' \<Rightarrow> Ok b')
                | _ \<Rightarrow> Panic reflect_panic)))"

text \<open>A \<^verbatim>\<open>Magic\<close> field (lines 419 to 444): the value of the field is not an argument.\<close>

definition store_magic :: "string \<Rightarrow> builder \<Rightarrow> builder res" where
  "store_magic t b =
     (case magic_of_tag t of
        Panic p \<Rightarrow> Panic p
      | Error e \<Rightarrow> Error e
      | Ok (magic, sz) \<Rightarrow>
          (case StoreUInt (uint64 magic) sz b of
             Inl e \<Rightarrow> Error (Errorf ''failed to store magic: %w'' [] (Some e))
           | Inr b' \<Rightarrow> Ok b'))"

text \<open>\<^verbatim>\<open>dict\<close> (lines 445 to 450): the assertion \<^verbatim>\<open>.(*cell.Dictionary)\<close>, then the store.\<close>

definition store_dict :: "extern \<Rightarrow> string \<Rightarrow> val \<Rightarrow> builder \<Rightarrow> builder res" where
  "store_dict X name fieldVal b =
     (case fieldVal of
        VDict d \<Rightarrow>
          (case StoreDict X d b of
             Inl e \<Rightarrow> Error (Errorf ''failed to store dict for %s, err: %w'' [AStr name] (Some e))
           | Inr b' \<Rightarrow> Ok b')
      | _ \<Rightarrow> Panic reflect_panic)"

text \<open>
  The cell of a \<^verbatim>\<open>^\<close> or \<^verbatim>\<open>.\<close> field goes to a reference or into the builder (lines
  406 to 418); \<^verbatim>\<open>c.ToBuilder()\<close> panics on a nil cell.
\<close>

definition store_cell :: "string \<Rightarrow> string \<Rightarrow> cell option \<Rightarrow> builder \<Rightarrow> builder res" where
  "store_cell name t c b =
     (if t = ''^'' then
        (case StoreRef c b of
           Inl e \<Rightarrow> Error (Errorf ''failed to store cell to ref for %s, err: %w'' [AStr name] (Some e))
         | Inr b' \<Rightarrow> Ok b')
      else
        (case c of
           None \<Rightarrow> Panic nil_panic
         | Some c' \<Rightarrow>
             (case StoreBuilder c' b of
                Inl e \<Rightarrow> Error (Errorf ''failed to store cell to builder for %s, err: %w'' [AStr name] (Some e))
              | Inr b' \<Rightarrow> Ok b')))"

text \<open>
  The engine: \<open>storeField\<close> is one turn of the loop of \<^verbatim>\<open>ToCell\<close> (lines 287 to 453),
  \<open>ToCell_fields\<close> the loop from field \<open>i\<close> on, \<open>ToCell\<close> and \<open>structStore\<close> the
  functions of these names.
\<close>

function (sequential) storeField :: "extern \<Rightarrow> field \<Rightarrow> val \<Rightarrow> builder \<Rightarrow> builder res"
  and storeDirective :: "extern \<Rightarrow> string \<Rightarrow> gotype \<Rightarrow> string \<Rightarrow> string list \<Rightarrow> val \<Rightarrow> builder \<Rightarrow> builder res"
  and structStore :: "extern \<Rightarrow> gotype \<Rightarrow> val \<Rightarrow> cell res"
  and ToCell :: "extern \<Rightarrow> gotype \<Rightarrow> val \<Rightarrow> cell res"
  and ToCell_fields :: "extern \<Rightarrow> field list \<Rightarrow> nat \<Rightarrow> val list \<Rightarrow> builder \<Rightarrow> builder res"
  where
  "storeField X (Field name ty tag0) fieldVal b =
     (let tag = TrimSpace tag0 in
      if tag = ''-'' then Ok b
      else case store_maybe ty fieldVal (Split tag) b of
             Error e \<Rightarrow> Error e
           | Panic p \<Rightarrow> Panic p
           | Ok (None, b1) \<Rightarrow> Ok b1
           | Ok (Some settings1, b1) \<Rightarrow>
               (case store_either settings1 b1 of
                  Error e \<Rightarrow> Error e
                | Panic p \<Rightarrow> Panic p
                | Ok (settings, b2) \<Rightarrow> storeDirective X name ty tag settings fieldVal b2))"
| "storeDirective X name ty tag settings fieldVal b =
     (case settings of
        [] \<Rightarrow> Panic index_panic
      | t # ts \<Rightarrow>
          if t = ''##'' then store_int_tag name ty tag ts fieldVal b
          else if t = ''addr'' then store_addr X fieldVal b
          else if t = ''bool'' then store_bool fieldVal b
          else if t = ''bits'' then store_bits_tag ts fieldVal b
          else if t = ''^'' \<or> t = ''.'' then
            (if ty = TCell then
               (case fieldVal of
                  VCell c \<Rightarrow> store_cell name t c b
                | _ \<Rightarrow> Panic reflect_panic)
             else
               (case structStore X ty fieldVal of
                  Error e \<Rightarrow> Error e
                | Panic p \<Rightarrow> Panic p
                | Ok c \<Rightarrow> store_cell name t (Some c) b))
          else if ty = TMagic then store_magic t b
          else if t = ''dict'' then store_dict X name fieldVal b
          else Panic (cannot_serialize name tag))"
| "structStore X ty v =
     (case ToCell X ty v of
        Error e \<Rightarrow> Error (Errorf ''failed to store to cell for %s, err: %w'' [AStr (type_name ty)] (Some e))
      | Panic p \<Rightarrow> Panic p
      | Ok c \<Rightarrow> Ok c)"
| "ToCell X ty v =
     (if is_pointer ty \<and> IsNil v then Error (Errorf ''v should not be nil'' [] None)
      else case ty of
             TStruct nm fs \<Rightarrow>
               (case v of
                  VStruct rv \<Rightarrow>
                    (case ToCell_fields X fs 0 rv BeginCell of
                       Error e \<Rightarrow> Error e
                     | Panic p \<Rightarrow> Panic p
                     | Ok b \<Rightarrow> Ok (EndCell b))
                | _ \<Rightarrow> Panic reflect_panic)
           | TPtr (TStruct nm fs) \<Rightarrow>
               (case v of
                  VPtr (Some (VStruct rv)) \<Rightarrow>
                    (case ToCell_fields X fs 0 rv BeginCell of
                       Error e \<Rightarrow> Error e
                     | Panic p \<Rightarrow> Panic p
                     | Ok b \<Rightarrow> Ok (EndCell b))
                | _ \<Rightarrow> Panic reflect_panic)
           | _ \<Rightarrow> Panic reflect_panic)"
| "ToCell_fields X [] i rv b = Ok b"
| "ToCell_fields X (f # fs) i rv b =
     (case storeField X f (rv ! i) b of
        Error e \<Rightarrow> Error e
      | Panic p \<Rightarrow> Panic p
      | Ok b' \<Rightarrow> ToCell_fields X fs (Suc i) rv b')"
  by pat_completeness auto

termination
proof (relation "inv_image (less_than <*lex*> less_than)
    (\<lambda>x. case x of
        Inl (Inl (X, f, v, b)) \<Rightarrow> (size f, 0::nat)
      | Inl (Inr (X, name, ty, tag, st, v, b)) \<Rightarrow> (size ty, 2)
      | Inr (Inl (X, ty, v)) \<Rightarrow> (size ty, 1)
      | Inr (Inr (Inl (X, ty, v))) \<Rightarrow> (size ty, 0)
      | Inr (Inr (Inr (X, fs, i, rv, b))) \<Rightarrow> (size_list size fs, 0))")
  show "wf (inv_image (less_than <*lex*> less_than)
    (\<lambda>x. case x of
        Inl (Inl (X, f, v, b)) \<Rightarrow> (size f, 0::nat)
      | Inl (Inr (X, name, ty, tag, st, v, b)) \<Rightarrow> (size ty, 2::nat)
      | Inr (Inl (X, ty, v)) \<Rightarrow> (size ty, 1)
      | Inr (Inr (Inl (X, ty, v))) \<Rightarrow> (size ty, 0)
      | Inr (Inr (Inr (X, fs, i, rv, b))) \<Rightarrow> (size_list size fs, 0)))"
    by (intro wf_inv_image wf_lex_prod wf_less_than)
qed simp_all

section \<open>Notions the properties are stated with\<close>



subsection \<open>A sample of the external operations\<close>

text \<open>
  The examples need the four external operations. This sample writes an address as
  the standard form of the ledger does (two tag bits, no anycast, an 8-bit workchain and
  a 256-bit account) and a dictionary as one presence bit and a reference to a chain of
  cells, one per entry, whose references are the key, the value and the next entry. The
  trie of the external package is another format; the properties below do not depend on
  the sample.
\<close>

fun chain_of_cell :: "cell \<Rightarrow> (cell \<times> cell) list" where
  "chain_of_cell (Cell bs [k, v, nx]) = (k, v) # chain_of_cell nx"
| "chain_of_cell (Cell bs [k, v]) = [(k, v)]"
| "chain_of_cell (Cell bs rs) = []"

fun cell_of_chain :: "cell \<times> cell \<Rightarrow> (cell \<times> cell) list \<Rightarrow> cell" where
  "cell_of_chain (k, v) [] = Cell [] [k, v]"
| "cell_of_chain (k, v) (kv # kvs) = Cell [] [k, v, cell_of_chain kv kvs]"

definition sample_LoadAddr :: "slice \<Rightarrow> error + (address option \<times> slice)" where
  "sample_LoadAddr s =
     (case load_bits 3 s of
        Inl e \<Rightarrow> Inl e
      | Inr (tg, s1) \<Rightarrow>
          if tg = [True, False, False] then
            (case LoadInt 8 s1 of
               Inl e \<Rightarrow> Inl e
             | Inr (wc, s2) \<Rightarrow>
                 (case LoadUInt 256 s2 of
                    Inl e \<Rightarrow> Inl e
                  | Inr (acc, s3) \<Rightarrow> Inr (Some (Address wc acc), s3)))
          else Inl (ErrExternal ''unsupported address''))"

definition sample_StoreAddr :: "address option \<Rightarrow> builder \<Rightarrow> error + builder" where
  "sample_StoreAddr a b =
     (case a of
        None \<Rightarrow> Inl (ErrExternal ''nil address'')
      | Some x \<Rightarrow>
          store_bits ([True, False, False] @ bits_of_int 8 (workchain x)
                        @ bits_of_nat 256 (account x)) b)"

definition sample_LoadDict :: "nat \<Rightarrow> slice \<Rightarrow> error + (dictionary \<times> slice)" where
  "sample_LoadDict n s =
     (case LoadBoolBit s of
        Inl e \<Rightarrow> Inl e
      | Inr (has, s1) \<Rightarrow>
          if \<not> has then Inr (Dictionary n [], s1)
          else (case srefs s1 of
                  [] \<Rightarrow> Inl ErrNoMoreRefs
                | c # cs \<Rightarrow> Inr (Dictionary n (chain_of_cell c), Slice (sbits s1) cs)))"

definition sample_StoreDict :: "dictionary option \<Rightarrow> builder \<Rightarrow> error + builder" where
  "sample_StoreDict d b =
     (case d of
        None \<Rightarrow> StoreBoolBit False b
      | Some x \<Rightarrow>
          (case All x of
             [] \<Rightarrow> StoreBoolBit False b
           | kv # kvs \<Rightarrow>
               (case StoreBoolBit True b of
                  Inl e \<Rightarrow> Inl e
                | Inr b1 \<Rightarrow> StoreRef (Some (cell_of_chain kv kvs)) b1)))"

definition sample_extern :: extern where
  "sample_extern =
     \<lparr> LoadAddr = sample_LoadAddr, StoreAddr = sample_StoreAddr,
       LoadDict = sample_LoadDict, StoreDict = sample_StoreDict \<rparr>"

subsection \<open>Well-typed values\<close>

text \<open>
  A value of a declared type, as Go's type system makes it: an integer is within the
  width of its kind, a byte is below 256, a record has one value of the right type for
  each field. A pointer may be nil.
\<close>

fun has_type :: "gotype \<Rightarrow> val \<Rightarrow> bool"
  and has_types :: "field list \<Rightarrow> val list \<Rightarrow> bool" where
  "has_type (TInt w) v = (case v of VInt x \<Rightarrow> - (2 ^ (w - 1)) \<le> x \<and> x < 2 ^ (w - 1) | _ \<Rightarrow> False)"
| "has_type (TUint w) v = (case v of VUint x \<Rightarrow> x < 2 ^ w | _ \<Rightarrow> False)"
| "has_type TBigInt v = (case v of VBigInt x \<Rightarrow> True | _ \<Rightarrow> False)"
| "has_type TBool v = (case v of VBool x \<Rightarrow> True | _ \<Rightarrow> False)"
| "has_type TBytes v = (case v of VBytes bs \<Rightarrow> list_all (\<lambda>x. x < 256) bs | _ \<Rightarrow> False)"
| "has_type TAddr v = (case v of VAddr x \<Rightarrow> True | _ \<Rightarrow> False)"
| "has_type TCell v = (case v of VCell x \<Rightarrow> True | _ \<Rightarrow> False)"
| "has_type TDict v = (case v of VDict x \<Rightarrow> True | _ \<Rightarrow> False)"
| "has_type TMagic v = (v = VMagic)"
| "has_type (TStruct nm fs) v = (case v of VStruct rv \<Rightarrow> has_types fs rv | _ \<Rightarrow> False)"
| "has_type (TPtr t) v = (case v of VPtr None \<Rightarrow> True | VPtr (Some e) \<Rightarrow> has_type t e | _ \<Rightarrow> False)"
| "has_type (TSlice t) v = (case v of VSlice xs \<Rightarrow> list_all (has_type t) xs | _ \<Rightarrow> False)"
| "has_types [] rv = (rv = [])"
| "has_types (Field n t g # fs) rv = (case rv of [] \<Rightarrow> False | v # vs \<Rightarrow> has_type t v \<and> has_types fs vs)"

text \<open>
  What the loop of the \<^verbatim>\<open>array\<close> transform does with one value of the dictionary (lines
  242 to 253): a cursor on the value, the first child cell of it instead when the
  directive ends in \<^verbatim>\<open>^\<close>, and \<open>structLoad\<close> of the element type on that cursor.
\<close>

definition dict_elem :: "extern \<Rightarrow> gotype \<Rightarrow> bool \<Rightarrow> cell \<Rightarrow> val res" where
  "dict_elem X ety isRef c =
     (case (if isRef then
              (case LoadRef (BeginParse c) of
                 Inl e \<Rightarrow> Error (Errorf ''failed to load ref in dict transform: %w'' [] (Some e))
               | Inr (ref, _) \<Rightarrow> Ok ref)
            else Ok (BeginParse c)) of
        Error e \<Rightarrow> Error e
      | Panic p \<Rightarrow> Panic p
      | Ok ld \<Rightarrow>
          (case structLoad X ety ld of
             Error e \<Rightarrow> Error (Errorf ''failed to load struct in dict transform: %w'' [] (Some e))
           | Panic p \<Rightarrow> Panic p
           | Ok (nVal, _) \<Rightarrow> Ok nVal))"

text \<open>A dictionary of two entries in the sample format, for the examples.\<close>

definition sample_item :: gotype where
  "sample_item = TStruct ''Item'' [Field ''Flag'' TBool ''bool'']"

definition sample_entries :: "(cell \<times> cell) list" where
  "sample_entries =
     [(Cell [False, True] [], Cell [] [Cell [True] []]),
      (Cell [True, False] [], Cell [] [Cell [False] []])]"

definition sample_dict_cursor :: slice where
  "sample_dict_cursor =
     Slice [True] [cell_of_chain (hd sample_entries) (tl sample_entries)]"


section \<open>Directive texts\<close>

declare Split.simps [simp del]
declare loadField.simps [simp del] loadDirective.simps [simp del] dictToArray.simps [simp del]
  structLoad.simps [simp del] LoadFromCell_fields.simps [simp del]
declare storeField.simps [simp del] storeDirective.simps [simp del] structStore.simps [simp del]
  ToCell.simps [simp del] ToCell_fields.simps [simp del]

lemma length_bits_of_nat [simp]: "length (bits_of_nat n v) = n"
  by (induction n arbitrary: v) auto

lemma nat_of_bits_acc_snoc:
  "nat_of_bits_acc a (xs @ [b]) = 2 * nat_of_bits_acc a xs + (if b then 1 else 0)"
  by (induction xs arbitrary: a) auto

lemma nat_of_bits_snoc: "nat_of_bits (xs @ [b]) = 2 * nat_of_bits xs + (if b then 1 else 0)"
  by (simp add: nat_of_bits_def nat_of_bits_acc_snoc)

lemma nat_of_bits_bits_of_nat: "nat_of_bits (bits_of_nat n v) = v mod 2 ^ n"
proof (induction n arbitrary: v)
  case 0
  show ?case by (simp add: nat_of_bits_def)
next
  case (Suc n)
  have "v mod (2 * 2 ^ n) = 2 * (v div 2 mod 2 ^ n) + v mod 2"
    by (rule mod_mult2_eq)
  then show ?case
    by (simp add: nat_of_bits_snoc Suc.IH odd_iff_mod_2_eq_one)
qed

lemma Split_dash: "Split ''-'' = [''-'']"
  by (simp add: Split.simps)

text \<open>A field whose directive has no \<^verbatim>\<open>maybe\<close> and no \<^verbatim>\<open>either\<close> prefix.\<close>

lemma loadField_plain:
  assumes "Split (TrimSpace tag0) = t # ts" and "t \<noteq> ''-''" and "t \<noteq> ''maybe''" and "t \<noteq> ''either''"
  shows "loadField X tyname (Field name ty tag0) i rv s
           = loadDirective X tyname name ty (TrimSpace tag0) (t # ts) i rv s"
proof -
  have "TrimSpace tag0 \<noteq> ''-''" using assms(1,2) Split_dash by auto
  then show ?thesis
    using assms by (simp add: loadField.simps load_maybe_def load_either_def)
qed

lemma storeField_plain:
  assumes "Split (TrimSpace tag0) = t # ts" and "t \<noteq> ''-''" and "t \<noteq> ''maybe''" and "t \<noteq> ''either''"
  shows "storeField X (Field name ty tag0) v b
           = storeDirective X name ty (TrimSpace tag0) (t # ts) v b"
proof -
  have "TrimSpace tag0 \<noteq> ''-''" using assms(1,2) Split_dash by auto
  then show ?thesis
    using assms by (simp add: storeField.simps store_maybe_def store_either_def)
qed


lemma parse_digits_digit:
  "parse_digits base a ds = Some v \<Longrightarrow> c \<in> set ds \<Longrightarrow> digit_val c \<noteq> None"
  by (induction ds arbitrary: a) (auto split: option.splits if_splits)

lemma digit_val_alnum:
  "digit_val c \<noteq> None \<Longrightarrow>
     \<not> isSpace c \<and> c \<noteq> CHR ''#'' \<and> c \<noteq> CHR ''+'' \<and> c \<noteq> CHR ''-'' \<and> c \<noteq> CHR '' ''"
  by (auto simp: digit_val_def isSpace_def Let_def split: if_splits)

lemma Split_nospace: "CHR '' '' \<notin> set s \<Longrightarrow> Split s = [s]"
  by (induction s) (auto simp: Split.simps)

lemma dropWhile_none: "\<forall>c\<in>set s. \<not> P c \<Longrightarrow> dropWhile P s = s"
  by (cases s) auto

lemma TrimSpace_id: "\<forall>c\<in>set s. \<not> isSpace c \<Longrightarrow> TrimSpace s = s"
  by (simp add: TrimSpace_def dropWhile_none)

section \<open>Magic literals of \<open>2 ^ 63\<close> and more\<close>

text \<open>
  C10. A \<^verbatim>\<open>Magic\<close> field whose tag is \<^verbatim>\<open>#\<close> followed by hexadecimal digits \<open>ds\<close>
  of a number \<open>v\<close> with \<open>2 ^ 63 \<le> v\<close>, at most 16 digits so that the width is within
  the 64 bits the engines allow, makes the decode engine and the encode engine panic
  with the text \<^verbatim>\<open>corrupted magic value in tag\<close>, whatever the cursor, the builder and
  the record hold: the literal goes through \<^verbatim>\<open>strconv.ParseInt\<close> with 64 bits, which
  refuses it.
\<close>

theorem magic_hex_overflow_panics:
  assumes "parse_digits 16 0 ds = Some v" and "2 ^ 63 \<le> v" and "length ds \<le> 16"
  shows "loadField X tyname (Field name TMagic (CHR ''#'' # ds)) i rv s
           = Panic ''corrupted magic value in tag''
       \<and> storeField X (Field name TMagic (CHR ''#'' # ds)) fieldVal b
           = Panic ''corrupted magic value in tag''"
proof -
  let ?t = "CHR ''#'' # ds"
  have sp: "\<not> isSpace c \<and> c \<noteq> CHR ''#'' \<and> c \<noteq> CHR ''+'' \<and> c \<noteq> CHR ''-'' \<and> c \<noteq> CHR '' ''"
    if "c \<in> set ds" for c
    using that assms(1) parse_digits_digit digit_val_alnum by blast
  have "\<not> isSpace (CHR ''#'')" by (simp add: isSpace_def)
  then have nsp: "\<forall>c\<in>set ?t. \<not> isSpace c" using sp by simp
  have trim: "TrimSpace ?t = ?t" by (rule TrimSpace_id [OF nsp])
  have "CHR '' '' \<notin> set ds" using sp by blast
  then have "CHR '' '' \<notin> set ?t" by simp
  then have split: "Split ?t = [?t]" by (rule Split_nospace)
  have ne: "ds \<noteq> []" using assms(1,2) by auto
  then have "hd ds \<in> set ds" by simp
  then have hdds: "hd ds \<noteq> CHR ''+'' \<and> hd ds \<noteq> CHR ''-'' \<and> hd ds \<noteq> CHR ''#''"
    using sp by blast
  have pu: "ParseInt ds 16 = None"
    using assms(1,2) ne hdds by (simp add: ParseInt_def ParseUint_def Let_def)
  have m: "magic_of_tag ?t = Panic ''corrupted magic value in tag''"
    using pu assms(3) by (simp add: magic_of_tag_def HasPrefix1_def)
  have nk: "?t \<noteq> ''-''" "?t \<noteq> ''maybe''" "?t \<noteq> ''either''" "?t \<noteq> ''##''" "?t \<noteq> ''addr''"
    "?t \<noteq> ''bool''" "?t \<noteq> ''bits''" "?t \<noteq> ''^''" "?t \<noteq> ''.''"
    using hdds ne by (cases ds; simp)+
  show ?thesis
    using nk by (simp add: trim split loadField.simps storeField.simps loadDirective.simps
        storeDirective.simps load_maybe_def load_either_def store_maybe_def store_either_def
        load_magic_def store_magic_def m)
qed

theorem magic_hex_overflow_panics_witness:
  "parse_digits 16 0 ''ffffffffffffffff'' = Some (2 ^ 64 - 1)
   \<and> (2::nat) ^ 63 \<le> 2 ^ 64 - 1
   \<and> length ''ffffffffffffffff'' \<le> 16
   \<and> loadField sample_extern ''Msg'' (Field ''_'' TMagic ''#ffffffffffffffff'') 0 [VMagic]
        (Slice (replicate 64 True) [])
       = Panic ''corrupted magic value in tag''
   \<and> storeField sample_extern (Field ''_'' TMagic ''#ffffffffffffffff'') VMagic BeginCell
       = Panic ''corrupted magic value in tag''"
proof -
  have d: "parse_digits 16 0 ''ffffffffffffffff'' = Some (2 ^ 64 - 1)"
    by (simp add: digit_val_def)
  have l: "(2::nat) ^ 63 \<le> 2 ^ 64 - 1" by simp
  show ?thesis
    using magic_hex_overflow_panics [OF d l, of sample_extern "''Msg''" "''_''" 0 "[VMagic]"
        "Slice (replicate 64 True) []" VMagic BeginCell] d
    by simp
qed

section \<open>Magic fields\<close>

lemma magic_of_tag_prefix:
  "magic_of_tag t = Ok (magic, sz) \<Longrightarrow> HasPrefix1 t CHR ''#'' \<or> HasPrefix1 t CHR ''$''"
  by (simp add: magic_of_tag_def split: if_splits)

lemma magic_of_tag_hashes: "magic_of_tag ''##'' = Panic ''corrupted magic value in tag''"
  by (simp add: magic_of_tag_def HasPrefix1_def ParseInt_def ParseUint_def digit_val_def)

lemma magic_of_tag_Ok_prefix:
  assumes "magic_of_tag t = Ok (magic, sz)"
  shows "t \<noteq> ''-'' \<and> t \<noteq> ''maybe'' \<and> t \<noteq> ''either'' \<and> t \<noteq> ''##'' \<and> t \<noteq> ''addr''
       \<and> t \<noteq> ''bool'' \<and> t \<noteq> ''bits'' \<and> t \<noteq> ''^'' \<and> t \<noteq> ''.'' \<and> t \<noteq> ''dict''"
proof -
  have "t \<noteq> ''##''" using assms magic_of_tag_hashes by auto
  moreover have "HasPrefix1 t CHR ''#'' \<or> HasPrefix1 t CHR ''$''"
    using assms by (rule magic_of_tag_prefix)
  ultimately show ?thesis by (auto simp: HasPrefix1_def)
qed

text \<open>
  C6. Take a \<^verbatim>\<open>Magic\<close> field whose literal \<open>t\<close> (the first token of its tag) declares
  the pattern \<open>magic\<close> and the width \<open>sz\<close>. The decode engine reads \<open>sz\<close> bits. When
  fewer remain it returns the cursor's error, wrapped. When the number read differs from
  the pattern it returns an error, not a panic, whose arguments are the name of the
  record's type, the expected pattern and the pattern read. Otherwise it goes on \<open>sz\<close>
  bits further and the record is as it was. The encode engine appends the \<open>sz\<close> bits of
  the pattern; the right-hand side does not mention \<open>fieldVal\<close>, the value of the field
  in the record.
\<close>

theorem magic_field:
  assumes "Split (TrimSpace tag0) = t # ts" and "magic_of_tag t = Ok (magic, sz)"
  shows "loadField X tyname (Field name TMagic tag0) i rv s =
           (if length (sbits s) < sz then
              Error (Errorf ''failed to load magic: %w'' [] (Some ErrNotEnoughData))
            else if nat_of_bits (take sz (sbits s)) \<noteq> uint64 magic then
              Error (Errorf ''magic is not correct for %s, want %x, got %x''
                       [AStr tyname, AInt magic, AUint (nat_of_bits (take sz (sbits s)))] None)
            else Ok (rv, Slice (drop sz (sbits s)) (srefs s)))
       \<and> storeField X (Field name TMagic tag0) fieldVal b =
           (if 1023 < length (bbits b) + sz then
              Error (Errorf ''failed to store magic: %w'' [] (Some ErrNotFit))
            else Ok (Builder (bbits b @ bits_of_nat sz (uint64 magic)) (brefs b)))"
proof -
  note k = magic_of_tag_Ok_prefix [OF assms(2)]
  have l: "loadField X tyname (Field name TMagic tag0) i rv s
             = loadDirective X tyname name TMagic (TrimSpace tag0) (t # ts) i rv s"
    using assms(1) k by (intro loadField_plain) auto
  have st: "storeField X (Field name TMagic tag0) fieldVal b
             = storeDirective X name TMagic (TrimSpace tag0) (t # ts) fieldVal b"
    using assms(1) k by (intro storeField_plain) auto
  show ?thesis
    unfolding l st using k assms(2)
    by (simp add: loadDirective.simps storeDirective.simps load_magic_def store_magic_def
        LoadUInt_def load_bits_def StoreUInt_def store_bits_def)
qed

lemma parse_deadbeef: "ParseInt ''deadbeef'' 16 = Some 0xdeadbeef"
  by (simp add: ParseInt_def ParseUint_def digit_val_def)

lemma magic_deadbeef: "magic_of_tag ''#deadbeef'' = Ok (0xdeadbeef, 32)"
  by (simp add: magic_of_tag_def HasPrefix1_def parse_deadbeef)

theorem magic_field_witness:
  "Split (TrimSpace ''#deadbeef'') = [''#deadbeef'']
   \<and> magic_of_tag ''#deadbeef'' = Ok (0xdeadbeef, 32)
   \<and> loadField sample_extern ''Msg'' (Field ''_'' TMagic ''#deadbeef'') 0 [VMagic, VUint 0]
        (Slice (bits_of_nat 32 0x12345678 @ [True]) [])
       = Error (Errorf ''magic is not correct for %s, want %x, got %x''
                  [AStr ''Msg'', AInt 0xdeadbeef, AUint 0x12345678] None)
   \<and> loadField sample_extern ''Msg'' (Field ''_'' TMagic ''#deadbeef'') 0 [VMagic, VUint 0]
        (Slice (bits_of_nat 32 0xdeadbeef @ [True]) [])
       = Ok ([VMagic, VUint 0], Slice [True] [])
   \<and> storeField sample_extern (Field ''_'' TMagic ''#deadbeef'') VMagic BeginCell
       = Ok (Builder (bits_of_nat 32 0xdeadbeef) [])"
proof -
  have h1: "Split (TrimSpace ''#deadbeef'') = [''#deadbeef'']" by code_simp
  note h2 = magic_deadbeef
  have e3: "uint64 0xdeadbeef = 0xdeadbeef" by (simp add: uint64_def)
  show ?thesis
    using magic_field [OF h1 h2, of sample_extern "''Msg''" "''_''" 0 "[VMagic, VUint 0]"
        "Slice (bits_of_nat 32 0x12345678 @ [True]) []" VMagic BeginCell]
      magic_field [OF h1 h2, of sample_extern "''Msg''" "''_''" 0 "[VMagic, VUint 0]"
        "Slice (bits_of_nat 32 0xdeadbeef @ [True]) []" VMagic BeginCell]
      h1 h2 e3
    by (simp add: BeginCell_def nat_of_bits_bits_of_nat)
qed

section \<open>The prefixes \<^verbatim>\<open>either\<close> and \<^verbatim>\<open>maybe\<close>\<close>

text \<open>
  C2. For a field whose directive is \<^verbatim>\<open>either A B\<close>, the decode engine reads one bit
  and executes the directive \<open>A\<close> when the bit is clear and the directive \<open>B\<close> when it
  is set, on the cursor after the bit. The encode engine does not look at the value
  \<open>v\<close> to choose: it appends the bit \<open>1\<close> and executes \<open>B\<close> when \<open>B\<close> begins with
  \<^verbatim>\<open>^\<close>, and appends the bit \<open>0\<close> and executes \<open>A\<close> otherwise.
\<close>

theorem either_field:
  assumes "Split (TrimSpace tag0) = ''either'' # A # B # rest"
  shows "loadField X tyname (Field name ty tag0) i rv s =
           (case sbits s of
              [] \<Rightarrow> Error (Errorf ''failed to load maybe for %s, err: %w'' [AStr name] (Some ErrNotEnoughData))
            | d # bs \<Rightarrow>
                loadDirective X tyname name ty (TrimSpace tag0) [if d then B else A] i rv
                  (Slice bs (srefs s)))
       \<and> storeField X (Field name ty tag0) v b =
           (if 1023 < length (bbits b) + 1 then
              Error (Errorf ''cannot store maybe bit: %w'' [] (Some ErrNotFit))
            else storeDirective X name ty (TrimSpace tag0)
                   [if HasPrefix1 B CHR ''^'' then B else A] v
                   (Builder (bbits b @ [HasPrefix1 B CHR ''^'']) (brefs b)))"
proof -
  have "TrimSpace tag0 \<noteq> ''-''" using assms Split_dash by auto
  then show ?thesis
    using assms
    by (simp add: loadField.simps storeField.simps load_maybe_def load_either_def
        store_maybe_def store_either_def LoadBoolBit_def StoreBoolBit_def store_bits_def
        split: list.splits)
qed

theorem either_field_witness:
  "Split (TrimSpace ''either . ^'') = [''either'', ''.'', ''^'']
   \<and> loadField sample_extern ''Msg'' (Field ''Body'' TCell ''either . ^'') 0 [VCell None]
        (Slice [True, False] [Cell [True, True] []])
       = Ok ([VCell (Some (Cell [True, True] []))], Slice [False] [])
   \<and> loadField sample_extern ''Msg'' (Field ''Body'' TCell ''either . ^'') 0 [VCell None]
        (Slice [False, True, True] [])
       = Ok ([VCell (Some (Cell [True, True] []))], Slice [True, True] [])
   \<and> storeField sample_extern (Field ''Body'' TCell ''either . ^'')
        (VCell (Some (Cell [True, True] []))) BeginCell
       = Ok (Builder [True] [Cell [True, True] []])"
proof -
  have h: "Split (TrimSpace ''either . ^'') = ''either'' # ''.'' # ''^'' # []" by code_simp
  have t: "TrimSpace ''either . ^'' = ''either . ^''" by code_simp
  have e1: "loadDirective sample_extern ''Msg'' ''Body'' TCell ''either . ^'' [''^''] 0 [VCell None]
              (Slice [False] [Cell [True, True] []])
            = Ok ([VCell (Some (Cell [True, True] []))], Slice [False] [])"
    by (simp add: loadDirective.simps load_next_def LoadRef_def BeginParse_def Slice_ToCell_def)
  have e2: "loadDirective sample_extern ''Msg'' ''Body'' TCell ''either . ^'' [''.''] 0 [VCell None]
              (Slice [True, True] [])
            = Ok ([VCell (Some (Cell [True, True] []))], Slice [True, True] [])"
    by (simp add: loadDirective.simps load_next_def Slice_ToCell_def)
  have e3: "storeDirective sample_extern ''Body'' TCell ''either . ^'' [''^'']
              (VCell (Some (Cell [True, True] []))) (Builder [True] [])
            = Ok (Builder [True] [Cell [True, True] []])"
    by (simp add: storeDirective.simps store_cell_def StoreRef_def)
  show ?thesis
    using either_field [OF h, of sample_extern "''Msg''" "''Body''" TCell 0 "[VCell None]"
        "Slice [True, False] [Cell [True, True] []]" "VCell (Some (Cell [True, True] []))" BeginCell]
      either_field [OF h, of sample_extern "''Msg''" "''Body''" TCell 0 "[VCell None]"
        "Slice [False, True, True] []" "VCell (Some (Cell [True, True] []))" BeginCell]
      h t e1 e2 e3
    by (simp add: BeginCell_def HasPrefix1_def)
qed

text \<open>
  C5. For a field whose directive is \<^verbatim>\<open>maybe\<close> followed by anything, of a pointer
  type and nil in the record, the encode engine appends the one bit \<open>0\<close> and nothing
  else (or fails when the bit does not fit). The decode engine, on a cursor that
  starts with the bit \<open>0\<close>, goes on one bit further, keeps all references, and returns
  the record unchanged: the field keeps the value it had, which is the zero value of
  its type in the fresh record \<open>structLoad\<close> allocates.
\<close>

theorem maybe_absent:
  assumes "Split (TrimSpace tag0) = ''maybe'' # rest" and "is_pointer ty" and "IsNil v"
  shows "storeField X (Field name ty tag0) v b =
           (if 1023 < length (bbits b) + 1 then
              Error (Errorf ''cannot store maybe bit: %w'' [] (Some ErrNotFit))
            else Ok (Builder (bbits b @ [False]) (brefs b)))
       \<and> loadField X tyname (Field name ty tag0) i rv (Slice (False # bs) rs) = Ok (rv, Slice bs rs)"
proof -
  have "TrimSpace tag0 \<noteq> ''-''" using assms Split_dash by auto
  then show ?thesis
    using assms
    by (simp add: loadField.simps storeField.simps load_maybe_def store_maybe_def
        LoadBoolBit_def StoreBoolBit_def store_bits_def)
qed

theorem maybe_absent_witness:
  "Split (TrimSpace ''maybe ## 8'') = [''maybe'', ''##'', ''8'']
   \<and> is_pointer TBigInt \<and> IsNil (VBigInt None)
   \<and> storeField sample_extern (Field ''Amount'' TBigInt ''maybe ## 8'') (VBigInt None) BeginCell
       = Ok (Builder [False] [])
   \<and> loadField sample_extern ''Msg'' (Field ''Amount'' TBigInt ''maybe ## 8'') 0
        (zero_fields [Field ''Amount'' TBigInt ''maybe ## 8'']) (Slice [False] [])
       = Ok ([zero TBigInt], Slice [] [])"
proof -
  have h: "Split (TrimSpace ''maybe ## 8'') = ''maybe'' # [''##'', ''8'']" by code_simp
  show ?thesis
    using maybe_absent [OF h, of TBigInt "VBigInt None" sample_extern "''Amount''" BeginCell
        "''Msg''" 0 "zero_fields [Field ''Amount'' TBigInt ''maybe ## 8'']" "[]" "[]"] h
    by (simp add: BeginCell_def)
qed


section \<open>Fixed-width integers\<close>

lemma IsNil_VBigInt [simp]: "IsNil (VBigInt a) = (a = None)"
  by (cases a) simp_all

lemma IsNil_VAddr [simp]: "IsNil (VAddr a) = (a = None)"
  by (cases a) simp_all

lemma IsNil_VCell [simp]: "IsNil (VCell a) = (a = None)"
  by (cases a) simp_all

lemma IsNil_VDict [simp]: "IsNil (VDict a) = (a = None)"
  by (cases a) simp_all

lemma IsNil_VPtr [simp]: "IsNil (VPtr a) = (a = None)"
  by (cases a) simp_all

lemma loadField_int:
  assumes "Split (TrimSpace tag0) = ''##'' # ts"
  shows "loadField X tyname (Field name ty tag0) i rv s
           = load_int_tag name ty (TrimSpace tag0) ts i rv s"
  by (simp add: loadField_plain [OF assms] loadDirective.simps)

lemma storeField_int:
  assumes "Split (TrimSpace tag0) = ''##'' # ts"
  shows "storeField X (Field name ty tag0) v b
           = store_int_tag name ty (TrimSpace tag0) ts v b"
  by (simp add: storeField_plain [OF assms] storeDirective.simps)

lemma ParseUint_digit: "ParseUint ''0'' 10 = Some 0" "ParseUint ''8'' 10 = Some 8"
  by (simp_all add: ParseUint_def digit_val_def)


lemma ParseUint_100: "ParseUint ''100'' 10 = Some 100"
  by (simp add: ParseUint_def digit_val_def)

lemma bits_of_nat_numeral:
  "bits_of_nat (numeral k) v = bits_of_nat (pred_numeral k) (v div 2) @ [odd v]"
  by (simp add: numeral_eq_Suc)

lemma bits_of_nat_8_255: "bits_of_nat 8 255 = [True, True, True, True, True, True, True, True]"
  by (simp add: bits_of_nat_numeral)

lemma int_of_bits_ones:
  "int_of_bits [True, True, True, True, True, True, True, True] = - 1"
  "nat_of_bits [True, True, True, True, True, True, True, True] = 255"
  by (simp_all add: int_of_bits_def nat_of_bits_def)

text \<open>
  C4. For a field whose directive is \<^verbatim>\<open>## N\<close>, the primitive that is called depends on
  \<open>N\<close> and on the declared type only. For \<open>N \<le> 64\<close>: a field of a signed kind is
  read with \<^verbatim>\<open>LoadInt\<close> and written with \<^verbatim>\<open>StoreInt\<close>; a field declared
  \<^verbatim>\<open>*big.Int\<close> is read with \<^verbatim>\<open>LoadBigInt\<close> and written with \<^verbatim>\<open>StoreBigInt\<close>; a
  field of any other type is read with \<^verbatim>\<open>LoadUInt\<close> and written with \<^verbatim>\<open>StoreUInt\<close>
  (and the conversion to the declared type panics when the type is no integer kind).
  For \<open>64 < N \<le> 256\<close> the field is read with \<^verbatim>\<open>LoadBigInt\<close> and written with
  \<^verbatim>\<open>StoreBigInt\<close> whatever its declared type is (and the assignment or the type
  assertion panics when that type is not \<^verbatim>\<open>*big.Int\<close>).
\<close>

theorem int_paths:
  assumes "Split (TrimSpace tag0) = ''##'' # a # rest" and "ParseUint a 10 = Some num"
  shows "(num \<le> 64 \<and> ty = TInt w \<longrightarrow>
            loadField X tyname (Field name ty tag0) i rv s =
              (case LoadInt num s of
                 Inl e \<Rightarrow> Error (Errorf ''failed to load int %d, err: %w'' [AUint num] (Some e))
               | Inr (x, s') \<Rightarrow> Ok (rv[i := VInt (wrap_int w x)], s'))
          \<and> storeField X (Field name ty tag0) v b =
              (case v of
                 VInt x \<Rightarrow>
                   (case StoreInt x num b of
                      Inl e \<Rightarrow> Error (Errorf ''failed to store int %d, err: %w'' [AUint num] (Some e))
                    | Inr b' \<Rightarrow> Ok b')
               | _ \<Rightarrow> Panic reflect_panic))
       \<and> (num \<le> 64 \<and> ty = TBigInt \<longrightarrow>
            loadField X tyname (Field name ty tag0) i rv s =
              (case LoadBigInt num s of
                 Inl e \<Rightarrow> Error (Errorf ''failed to load bigint %d, err: %w'' [AUint num] (Some e))
               | Inr (x, s') \<Rightarrow> Ok (rv[i := VBigInt (Some x)], s'))
          \<and> storeField X (Field name ty tag0) v b = store_bigint v num b)
       \<and> (num \<le> 64 \<and> \<not> is_int_kind ty \<and> ty \<noteq> TBigInt \<longrightarrow>
            loadField X tyname (Field name ty tag0) i rv s =
              (case LoadUInt num s of
                 Inl e \<Rightarrow> Error (Errorf ''failed to load uint %d, err: %w'' [AUint num] (Some e))
               | Inr (x, s') \<Rightarrow>
                   (case Convert (VUint x) ty of
                      None \<Rightarrow> Panic reflect_panic
                    | Some y \<Rightarrow> Ok (rv[i := y], s')))
          \<and> storeField X (Field name ty tag0) v b =
              (case v of
                 VUint x \<Rightarrow>
                   (case StoreUInt x num b of
                      Inl e \<Rightarrow> Error (Errorf ''failed to store uint %d, err: %w'' [AUint num] (Some e))
                    | Inr b' \<Rightarrow> Ok b')
               | _ \<Rightarrow> Panic reflect_panic))
       \<and> (64 < num \<and> num \<le> 256 \<longrightarrow>
            loadField X tyname (Field name ty tag0) i rv s =
              (case LoadBigInt num s of
                 Inl e \<Rightarrow> Error (Errorf ''failed to load bigint %d, err: %w'' [AUint num] (Some e))
               | Inr (x, s') \<Rightarrow>
                   if ty = TBigInt then Ok (rv[i := VBigInt (Some x)], s') else Panic reflect_panic)
          \<and> storeField X (Field name ty tag0) v b = store_bigint v num b)"
proof -
  have l: "loadField X tyname (Field name ty tag0) i rv s
             = load_int name ty (TrimSpace tag0) num i rv s"
    using assms(2) by (simp add: loadField_int [OF assms(1)] load_int_tag_def)
  have st: "storeField X (Field name ty tag0) v b
             = store_int name ty (TrimSpace tag0) num v b"
    using assms(2) by (simp add: storeField_int [OF assms(1)] store_int_tag_def)
  show ?thesis
    unfolding l st
    by (auto simp: load_int_def store_int_def split: sum.splits prod.splits)
qed

theorem int_paths_witness:
  "Split (TrimSpace ''## 8'') = [''##'', ''8''] \<and> ParseUint ''8'' 10 = Some 8
   \<and> loadField sample_extern ''Msg'' (Field ''V'' (TInt 8) ''## 8'') 0 [VInt 0]
        (Slice [True, True, True, True, True, True, True, True] [])
       = Ok ([VInt (- 1)], Slice [] [])
   \<and> loadField sample_extern ''Msg'' (Field ''V'' (TUint 8) ''## 8'') 0 [VUint 0]
        (Slice [True, True, True, True, True, True, True, True] [])
       = Ok ([VUint 255], Slice [] [])
   \<and> loadField sample_extern ''Msg'' (Field ''V'' TBigInt ''## 8'') 0 [VBigInt None]
        (Slice [True, True, True, True, True, True, True, True] [])
       = Ok ([VBigInt (Some (- 1))], Slice [] [])
   \<and> storeField sample_extern (Field ''V'' (TInt 8) ''## 8'') (VInt (- 1)) BeginCell
       = Ok (Builder [True, True, True, True, True, True, True, True] [])
   \<and> storeField sample_extern (Field ''V'' (TUint 8) ''## 8'') (VUint 255) BeginCell
       = Ok (Builder [True, True, True, True, True, True, True, True] [])
   \<and> storeField sample_extern (Field ''V'' TBigInt ''## 8'') (VBigInt (Some (- 1))) BeginCell
       = Ok (Builder [True, True, True, True, True, True, True, True] [])
   \<and> Split (TrimSpace ''## 100'') = [''##'', ''100''] \<and> ParseUint ''100'' 10 = Some 100
   \<and> loadField sample_extern ''Msg'' (Field ''V'' (TInt 64) ''## 100'') 0 [VInt 0] (Slice [] [])
       = Error (Errorf ''failed to load bigint %d, err: %w'' [AUint 100] (Some ErrNotEnoughData))
   \<and> storeField sample_extern (Field ''V'' (TInt 64) ''## 100'') (VInt 0) BeginCell
       = Panic reflect_panic"
proof -
  have h8: "Split (TrimSpace ''## 8'') = ''##'' # ''8'' # []" by code_simp
  have h100: "Split (TrimSpace ''## 100'') = ''##'' # ''100'' # []" by code_simp
  have w: "wrap_int 8 (- 1) = - 1" by (simp add: wrap_int_def)
  have bi: "bits_of_int 8 (- 1) = [True, True, True, True, True, True, True, True]"
    by (simp add: bits_of_int_def bits_of_nat_8_255)
  note P8 = int_paths [OF h8 ParseUint_digit(2), of _ _ sample_extern "''Msg''" "''V''" 0]
  show ?thesis
    using P8 [of "TInt 8" 8 "[VInt 0]" "Slice [True, True, True, True, True, True, True, True] []"
                "VInt (- 1)" BeginCell]
      P8 [of "TUint 8" 8 "[VUint 0]" "Slice [True, True, True, True, True, True, True, True] []"
                "VUint 255" BeginCell]
      P8 [of TBigInt 8 "[VBigInt None]" "Slice [True, True, True, True, True, True, True, True] []"
                "VBigInt (Some (- 1))" BeginCell]
      int_paths [OF h100 ParseUint_100, of "TInt 64" 64 sample_extern "''Msg''" "''V''" 0 "[VInt 0]"
                "Slice [] []" "VInt 0" BeginCell]
      h8 h100 ParseUint_digit(2) ParseUint_100 w bi
    by (simp add: LoadInt_def LoadUInt_def LoadBigInt_def load_bits_def int_of_bits_ones
        StoreInt_def StoreUInt_def StoreBigInt_def store_bigint_def store_bits_def BeginCell_def
        bits_of_nat_8_255)
qed




section \<open>The dictionary transform\<close>

lemma dictToArray_step:
  "dictToArray X (TSlice ety) isRef (kv # kvs) (VSlice xs) =
     (case dict_elem X ety isRef (snd kv) of
        Error e \<Rightarrow> Error e
      | Panic p \<Rightarrow> Panic p
      | Ok y \<Rightarrow> dictToArray X (TSlice ety) isRef kvs (VSlice (xs @ [y])))"
  by (simp add: dictToArray.simps dict_elem_def split: res.splits sum.splits prod.splits)

lemma dictToArray_slice:
  "dictToArray X (TSlice ety) isRef kvs (VSlice xs) = Ok r \<longleftrightarrow>
     (\<exists>ys. r = VSlice (xs @ ys)
        \<and> list_all2 (\<lambda>kv y. dict_elem X ety isRef (snd kv) = Ok y) kvs ys)"
proof (induction kvs arbitrary: xs)
  case Nil
  show ?case by (auto simp: dictToArray.simps)
next
  case (Cons kv kvs)
  show ?case
  proof (cases "dict_elem X ety isRef (snd kv)")
    case (Ok y)
    then show ?thesis
      by (auto simp: dictToArray_step Cons.IH list_all2_Cons1)
  next
    case (Error e)
    then show ?thesis by (auto simp: dictToArray_step list_all2_Cons1)
  next
    case (Panic p)
    then show ?thesis by (auto simp: dictToArray_step list_all2_Cons1)
  qed
qed

text \<open>
  C7. Take a field of a slice type whose directive is \<^verbatim>\<open>dict N -> tgt\<close>, possibly
  followed by more tokens, on a cursor from which the dictionary \<open>d\<close> loads, and let
  \<open>xs\<close> be what the field holds (nothing, in a fresh record). When \<open>tgt\<close> is
  \<^verbatim>\<open>array\<close> the decode engine succeeds exactly when every value of \<open>d\<close> decodes, and
  the field then holds \<open>xs\<close> followed by one decoded element for each entry of \<open>d\<close>, in
  the order \<^verbatim>\<open>All()\<close> enumerates them (\<open>list_all2\<close> relates the entries and the
  elements position by position): as many elements as entries, none for an empty
  dictionary. Each value is dereferenced one child cell first exactly when the token
  after \<^verbatim>\<open>array\<close> is \<^verbatim>\<open>^\<close>. When \<open>tgt\<close> is anything else the engine panics.
\<close>

theorem dict_array_transform:
  assumes "Split (TrimSpace tag0) = ''dict'' # a # ''->'' # tgt # rest"
    and "ParseUint a 10 = Some n" and "LoadDict X n s = Inr (d, s')" and "rv ! i = VSlice xs"
  shows "(tgt = ''array'' \<longrightarrow>
           (\<forall>r. loadField X tyname (Field name (TSlice ety) tag0) i rv s = Ok r \<longleftrightarrow>
              (\<exists>ys. r = (rv[i := VSlice (xs @ ys)], s')
                 \<and> list_all2 (\<lambda>kv y. dict_elem X ety (rest \<noteq> [] \<and> hd rest = ''^'') (snd kv) = Ok y)
                      (All d) ys)))
       \<and> (tgt \<noteq> ''array'' \<longrightarrow>
           loadField X tyname (Field name (TSlice ety) tag0) i rv s
             = Panic ''transformation to this type is not supported'')"
proof -
  have l: "loadField X tyname (Field name (TSlice ety) tag0) i rv s
             = loadDirective X tyname name (TSlice ety) (TrimSpace tag0)
                 (''dict'' # a # ''->'' # tgt # rest) i rv s"
    by (rule loadField_plain [OF assms(1)]) simp_all
  have r: "(5 \<le> length (''dict'' # a # ''->'' # tgt # rest)
              \<and> (''dict'' # a # ''->'' # tgt # rest) ! 4 = ''^'')
            = (rest \<noteq> [] \<and> hd rest = ''^'')"
    by (cases rest) auto
  have d: "loadDirective X tyname name (TSlice ety) (TrimSpace tag0)
                 (''dict'' # a # ''->'' # tgt # rest) i rv s
           = (if tgt = ''array'' then
                (case dictToArray X (TSlice ety) (rest \<noteq> [] \<and> hd rest = ''^'') (All d) (VSlice xs) of
                   Error e \<Rightarrow> Error e
                 | Panic p \<Rightarrow> Panic p
                 | Ok arr \<Rightarrow> Ok (rv[i := arr], s'))
              else Panic ''transformation to this type is not supported'')"
    using assms(2,3,4) r by (simp add: loadDirective.simps)
  let ?P = "\<lambda>kv y. dict_elem X ety (rest \<noteq> [] \<and> hd rest = ''^'') (snd kv) = Ok y"
  let ?D = "dictToArray X (TSlice ety) (rest \<noteq> [] \<and> hd rest = ''^'') (All d) (VSlice xs)"
  have ok: "?D = Ok (VSlice (xs @ ys))" if "list_all2 ?P (All d) ys" for ys
    using that dictToArray_slice [of X ety _ "All d" xs "VSlice (xs @ ys)"] by blast
  have "(case ?D of Error e \<Rightarrow> Error e | Panic p \<Rightarrow> Panic p | Ok arr \<Rightarrow> Ok (rv[i := arr], s')) = Ok r
          \<longleftrightarrow> (\<exists>ys. r = (rv[i := VSlice (xs @ ys)], s') \<and> list_all2 ?P (All d) ys)" for r
  proof (cases ?D)
    case (Ok arr)
    then obtain ys where ys: "arr = VSlice (xs @ ys)" "list_all2 ?P (All d) ys"
      using dictToArray_slice [of X ety _ "All d" xs arr] by blast
    show ?thesis
    proof
      assume "(case ?D of Error e \<Rightarrow> Error e | Panic p \<Rightarrow> Panic p | Ok arr \<Rightarrow> Ok (rv[i := arr], s')) = Ok r"
      then have "r = (rv[i := VSlice (xs @ ys)], s')" using Ok ys(1) by simp
      then show "\<exists>ys. r = (rv[i := VSlice (xs @ ys)], s') \<and> list_all2 ?P (All d) ys"
        using ys(2) by blast
    next
      assume "\<exists>ys. r = (rv[i := VSlice (xs @ ys)], s') \<and> list_all2 ?P (All d) ys"
      then obtain zs where zs: "r = (rv[i := VSlice (xs @ zs)], s')" "list_all2 ?P (All d) zs"
        by blast
      have "?D = Ok (VSlice (xs @ zs))" by (rule ok [OF zs(2)])
      then show "(case ?D of Error e \<Rightarrow> Error e | Panic p \<Rightarrow> Panic p | Ok arr \<Rightarrow> Ok (rv[i := arr], s')) = Ok r"
        using zs(1) by simp
    qed
  next
    case (Error e)
    then show ?thesis using ok by auto
  next
    case (Panic p)
    then show ?thesis using ok by auto
  qed
  then show ?thesis
    unfolding l d by simp
qed

lemma sample_elem:
  "dict_elem sample_extern sample_item True (Cell [] [Cell [True] []]) = Ok (VStruct [VBool True])"
  "dict_elem sample_extern sample_item True (Cell [] [Cell [False] []]) = Ok (VStruct [VBool False])"
  by code_simp+

lemma sample_LoadDict_cursor:
  "LoadDict sample_extern 8 sample_dict_cursor = Inr (Dictionary 8 sample_entries, Slice [] [])"
  by (simp add: sample_extern_def sample_LoadDict_def sample_dict_cursor_def sample_entries_def
      LoadBoolBit_def)

theorem dict_array_transform_witness:
  "Split (TrimSpace ''dict 8 -> array ^'') = [''dict'', ''8'', ''->'', ''array'', ''^'']
   \<and> Split (TrimSpace ''dict 8 -> list'') = [''dict'', ''8'', ''->'', ''list'']
   \<and> ParseUint ''8'' 10 = Some 8
   \<and> LoadDict sample_extern 8 sample_dict_cursor = Inr (Dictionary 8 sample_entries, Slice [] [])
   \<and> [VSlice []] ! 0 = VSlice []
   \<and> loadField sample_extern ''Msg'' (Field ''Items'' (TSlice sample_item) ''dict 8 -> array ^'') 0
        [VSlice []] sample_dict_cursor
       = Ok ([VSlice [VStruct [VBool True], VStruct [VBool False]]], Slice [] [])
   \<and> loadField sample_extern ''Msg'' (Field ''Items'' (TSlice sample_item) ''dict 8 -> list'') 0
        [VSlice []] sample_dict_cursor
       = Panic ''transformation to this type is not supported''"
proof -
  have h: "Split (TrimSpace ''dict 8 -> array ^'') = ''dict'' # ''8'' # ''->'' # ''array'' # [''^'']"
    by code_simp
  have g: "Split (TrimSpace ''dict 8 -> list'') = ''dict'' # ''8'' # ''->'' # ''list'' # []"
    by code_simp
  have p: "ParseUint ''8'' 10 = Some 8" by (simp add: ParseUint_def digit_val_def)
  have z: "[VSlice []] ! 0 = VSlice []" by simp
  have e: "list_all2 (\<lambda>kv y. dict_elem sample_extern sample_item ([''^''] \<noteq> [] \<and> hd [''^''] = ''^'') (snd kv) = Ok y)
             (All (Dictionary 8 sample_entries)) [VStruct [VBool True], VStruct [VBool False]]"
    by (simp add: sample_entries_def sample_elem)
  show ?thesis
    using dict_array_transform [OF h p sample_LoadDict_cursor z, of "''Msg''" "''Items''" sample_item] e
      dict_array_transform [OF g p sample_LoadDict_cursor z, of "''Msg''" "''Items''" sample_item]
      h g p sample_LoadDict_cursor
    by auto
qed

section \<open>The errors of the decode engine\<close>










lemma LoadBoolBit_err: "LoadBoolBit s = Inl w \<Longrightarrow> w = ErrNotEnoughData"
  by (simp add: LoadBoolBit_def split: list.splits)










section \<open>Malformed directives\<close>












end
